theory Spec2Isabelle
  imports Main "HOL-Library.AList" "HOL-Library.Char_ord" "HOL-Library.List_Lexorder"
begin

section \<open>Workspace-to-account group migration (workspace_access/groups.py)\<close>

text \<open>
  A shallow embedding of \<^verbatim>\<open>src/databricks/labs/ucx/workspace_access/groups.py\<close>.

  Conventions of the embedding:
  \<^item> a Python \<^verbatim>\<open>dict[str, Group]\<close> is an association list in insertion order; storing
    under a key that is already present keeps the key's position and replaces its value
    (\<open>AList.update\<close>), looking a key up is \<open>map_of\<close>, \<^verbatim>\<open>.values()\<close> is \<open>map snd\<close>;
  \<^item> an exception is a value of \<open>exn\<close>; a function that may raise returns \<open>exn + 'a\<close>;
  \<^item> a generator is the list of the items it yielded together with the exception that
    ended it, if one did;
  \<^item> Python's \<^verbatim>\<open>re\<close> module, \<^verbatim>\<open>json.dumps\<close> and the remote directory client are
    parameters of the functions that call them;
  \<^item> a job handed to the executor is the call it makes: the \<^verbatim>\<open>functools.partial\<close> of an
    operation and its arguments;
  \<^item> informational log lines are not modelled; the warning of \<open>safe_sub\<close> is.
\<close>

subsection \<open>Data model\<close>

text \<open>
  \<^verbatim>\<open>iam.ComplexValue.as_dict()\<close>: the key/value pairs of one member, role or entitlement.
  The payload is opaque to this module; it is only handed to \<^verbatim>\<open>json.dumps\<close>.
\<close>

type_synonym ComplexValue = "(string \<times> string) list"

record ResourceMeta =
  resource_type :: "string option"

text \<open>
  \<^verbatim>\<open>iam.Group\<close> of the SDK. The fields \<^verbatim>\<open>id\<close>, \<^verbatim>\<open>external_id\<close>, \<^verbatim>\<open>members\<close>, \<^verbatim>\<open>roles\<close>
  and \<^verbatim>\<open>entitlements\<close> carry the prefix \<open>group_\<close> here, because \<open>id\<close> is a HOL constant
  and the other four are also fields of \<open>MigratedGroup\<close>.

  The display name of a group is optional. A group as the client returns it is a
  \<open>string option Group\<close>. The listings by name keep only the groups whose display name is
  a non-empty string, so the values of such a dictionary are of type \<open>string Group\<close>; it
  is on these dictionaries that the matching strategies are embedded.
\<close>

record 'n Group =
  group_id :: string
  display_name :: 'n
  group_external_id :: "string option"
  meta :: "ResourceMeta option"
  group_members :: "ComplexValue list option"
  group_roles :: "ComplexValue list option"
  group_entitlements :: "ComplexValue list option"

text \<open>A group whose display name is known to be the string \<open>n\<close>.\<close>

definition named :: "string \<Rightarrow> string option Group \<Rightarrow> string Group" where
  "named n g =
     \<lparr>group_id = group_id g, display_name = n, group_external_id = group_external_id g,
      meta = meta g, group_members = group_members g, group_roles = group_roles g,
      group_entitlements = group_entitlements g\<rparr>"

record MigratedGroup =
  id_in_workspace :: string
  name_in_workspace :: string
  name_in_account :: string
  temporary_name :: string
  members :: "string option"
  entitlements :: "string option"
  external_id :: "string option"
  roles :: "string option"

text \<open>
  The exceptions the module meets: the remote client's error classes it imports, the
  \<^verbatim>\<open>KeyError\<close> of a failed subscript (with the missing key), the \<^verbatim>\<open>TypeError\<close>,
  \<^verbatim>\<open>IndexError\<close> and \<^verbatim>\<open>OverflowError\<close> of the Python runtime, and the aggregate
  \<^verbatim>\<open>ManyError\<close> of a phase, built from the list of failures the executor returned.
\<close>

datatype exn =
    NotFound
  | BadRequest
  | InternalError
  | ResourceConflict
  | DeadlineExceeded
  | KeyError string
  | TypeError
  | IndexError
  | OverflowError
  | ManyError "exn list"

type_synonym 'a generator = "'a list \<times> exn option"

subsection \<open>Regular expressions\<close>

text \<open>
  A call into \<^verbatim>\<open>re\<close> raises \<^verbatim>\<open>re.error\<close> (the expression is rejected as malformed), or
  raises an exception of another class (CPython raises \<^verbatim>\<open>OverflowError\<close> for a repeat
  count that is too large and \<^verbatim>\<open>IndexError\<close> for an unknown group name in a replacement),
  or returns. A match object gives \<^verbatim>\<open>match.group()\<close>, the whole matched text, and
  \<^verbatim>\<open>match.groups()\<close>, the capture groups, where a capture group that took no part in the
  match is \<^verbatim>\<open>None\<close>.
\<close>

datatype 'a re_result = ReError | ReRaised exn | ReOk 'a

record Match =
  match_group :: string
  match_groups :: "string option list"

text \<open>\<^verbatim>\<open>re.search(pattern, string)\<close> and \<^verbatim>\<open>re.sub(pattern, repl, string)\<close>.\<close>

type_synonym re_search = "string \<Rightarrow> string \<Rightarrow> Match option re_result"
type_synonym re_sub = "string \<Rightarrow> string \<Rightarrow> string \<Rightarrow> string re_result"

text \<open>
  \<^verbatim>\<open>GroupMigrationStrategy._safe_match\<close>. Only \<^verbatim>\<open>re.error\<close> is caught. The value returned
  is a Python value that is a string or \<^verbatim>\<open>None\<close>: \<^verbatim>\<open>match_groups[0]\<close> is \<^verbatim>\<open>None\<close> when the
  first capture group took no part in the match.
\<close>

definition safe_match :: "re_search \<Rightarrow> string \<Rightarrow> string \<Rightarrow> exn + string option" where
  "safe_match search group_name match_re =
     (case search match_re group_name of
        ReError \<Rightarrow> Inr (Some group_name)
      | ReRaised e \<Rightarrow> Inl e
      | ReOk None \<Rightarrow> Inr (Some group_name)
      | ReOk (Some m) \<Rightarrow>
          (case match_groups m of
             g # _ \<Rightarrow> Inr g
           | [] \<Rightarrow> Inr (Some (match_group m))))"

text \<open>
  \<^verbatim>\<open>GroupMigrationStrategy._safe_sub\<close>, with the warnings it logs. Only \<^verbatim>\<open>re.error\<close> is
  caught.
\<close>

definition safe_sub :: "re_sub \<Rightarrow> string \<Rightarrow> string \<Rightarrow> string \<Rightarrow> (exn + string) \<times> string list" where
  "safe_sub sub group_name match_re replace =
     (case sub match_re replace group_name of
        ReOk s \<Rightarrow> (Inr s, [])
      | ReRaised e \<Rightarrow> (Inl e, [])
      | ReError \<Rightarrow>
          (Inr group_name,
           [''Failed to apply Regex Expression '' @ match_re @ '' on Group Name '' @ group_name]))"

subsection \<open>Matching strategies\<close>

text \<open>
  \<^verbatim>\<open>GroupMigrationStrategy.get_filtered_groups\<close>. Python's \<^verbatim>\<open>not include_group_names\<close>
  holds of \<^verbatim>\<open>None\<close> and of the empty list.
\<close>

definition get_filtered_groups ::
  "(string \<times> string Group) list \<Rightarrow> string list option \<Rightarrow> (string \<times> string Group) list" where
  "get_filtered_groups workspace_groups_in_workspace include_group_names =
     (case include_group_names of
        None \<Rightarrow> workspace_groups_in_workspace
      | Some names \<Rightarrow>
          if names = [] then workspace_groups_in_workspace
          else filter (\<lambda>(group_name, _). group_name \<in> set names) workspace_groups_in_workspace)"

text \<open>\<^verbatim>\<open>json.dumps([gg.as_dict() for gg in xs]) if xs else None\<close>.\<close>

definition dumps_if :: "(ComplexValue list \<Rightarrow> string) \<Rightarrow> ComplexValue list option \<Rightarrow> string option" where
  "dumps_if json_dumps xs =
     (case xs of
        None \<Rightarrow> None
      | Some vs \<Rightarrow> if vs = [] then None else Some (json_dumps vs))"

text \<open>
  \<^verbatim>\<open>MatchingNamesStrategy.generate_migrated_groups\<close>: the loop over the candidate
  groups, then the generator.
\<close>

fun matching_names_loop ::
  "(ComplexValue list \<Rightarrow> string) \<Rightarrow> (string \<times> string Group) list \<Rightarrow> string \<Rightarrow> string Group list
     \<Rightarrow> MigratedGroup list" where
  "matching_names_loop json_dumps account_groups_in_account renamed_groups_prefix [] = []"
| "matching_names_loop json_dumps account_groups_in_account renamed_groups_prefix (g # gs) =
     (let temporary_name' = renamed_groups_prefix @ display_name g;
          account_group = map_of account_groups_in_account (display_name g)
      in case account_group of
           None \<Rightarrow>
             matching_names_loop json_dumps account_groups_in_account renamed_groups_prefix gs
         | Some ag \<Rightarrow>
             \<lparr>id_in_workspace = group_id g,
              name_in_workspace = display_name g,
              name_in_account = display_name g,
              temporary_name = temporary_name',
              members = dumps_if json_dumps (group_members g),
              entitlements = dumps_if json_dumps (group_entitlements g),
              external_id = group_external_id ag,
              roles = dumps_if json_dumps (group_roles g)\<rparr>
             # matching_names_loop json_dumps account_groups_in_account renamed_groups_prefix gs)"

definition MatchingNamesStrategy ::
  "(ComplexValue list \<Rightarrow> string) \<Rightarrow> (string \<times> string Group) list \<Rightarrow> (string \<times> string Group) list
     \<Rightarrow> string \<Rightarrow> string list option \<Rightarrow> MigratedGroup generator" where
  "MatchingNamesStrategy json_dumps workspace_groups_in_workspace account_groups_in_account
       renamed_groups_prefix include_group_names =
     (let workspace_groups = get_filtered_groups workspace_groups_in_workspace include_group_names
      in (matching_names_loop json_dumps account_groups_in_account renamed_groups_prefix
            (map snd workspace_groups), None))"

text \<open>\<^verbatim>\<open>MatchByExternalIdStrategy.generate_migrated_groups\<close>.\<close>

fun external_id_loop ::
  "(ComplexValue list \<Rightarrow> string) \<Rightarrow> (string option \<times> string Group) list \<Rightarrow> string \<Rightarrow> string Group list
     \<Rightarrow> MigratedGroup list" where
  "external_id_loop json_dumps account_groups_by_id renamed_groups_prefix [] = []"
| "external_id_loop json_dumps account_groups_by_id renamed_groups_prefix (g # gs) =
     (let temporary_name' = renamed_groups_prefix @ display_name g;
          account_group = map_of account_groups_by_id (group_external_id g)
      in case account_group of
           Some ag \<Rightarrow>
             \<lparr>id_in_workspace = group_id g,
              name_in_workspace = display_name g,
              name_in_account = display_name ag,
              temporary_name = temporary_name',
              members = dumps_if json_dumps (group_members g),
              entitlements = dumps_if json_dumps (group_entitlements g),
              external_id = group_external_id ag,
              roles = dumps_if json_dumps (group_roles g)\<rparr>
             # external_id_loop json_dumps account_groups_by_id renamed_groups_prefix gs
         | None \<Rightarrow> external_id_loop json_dumps account_groups_by_id renamed_groups_prefix gs)"

definition MatchByExternalIdStrategy ::
  "(ComplexValue list \<Rightarrow> string) \<Rightarrow> (string \<times> string Group) list \<Rightarrow> (string \<times> string Group) list
     \<Rightarrow> string \<Rightarrow> string list option \<Rightarrow> MigratedGroup generator" where
  "MatchByExternalIdStrategy json_dumps workspace_groups_in_workspace account_groups_in_account
       renamed_groups_prefix include_group_names =
     (let workspace_groups = get_filtered_groups workspace_groups_in_workspace include_group_names;
          account_groups_by_id =
            foldl (\<lambda>d g. AList.update (group_external_id g) g d) []
              (map snd account_groups_in_account)
      in (external_id_loop json_dumps account_groups_by_id renamed_groups_prefix
            (map snd workspace_groups), None))"

text \<open>
  \<^verbatim>\<open>RegexSubStrategy.generate_migrated_groups\<close>. An exception that \<open>safe_sub\<close> lets
  through ends the generator. The keyword arguments of \<^verbatim>\<open>MigratedGroup(...)\<close> are
  evaluated in order, so the subscript \<^verbatim>\<open>self.account_groups_in_account[name_in_account]\<close>
  raises \<^verbatim>\<open>KeyError\<close> before anything is yielded for that group, and the generator ends
  there.
\<close>

fun regex_sub_loop ::
  "(ComplexValue list \<Rightarrow> string) \<Rightarrow> re_sub \<Rightarrow> (string \<times> string Group) list \<Rightarrow> string \<Rightarrow> string
     \<Rightarrow> string \<Rightarrow> string Group list \<Rightarrow> MigratedGroup generator" where
  "regex_sub_loop json_dumps sub account_groups_in_account renamed_groups_prefix
       workspace_group_regex workspace_group_replace [] = ([], None)"
| "regex_sub_loop json_dumps sub account_groups_in_account renamed_groups_prefix
       workspace_group_regex workspace_group_replace (g # gs) =
     (let temporary_name' = renamed_groups_prefix @ display_name g
      in case fst (safe_sub sub (display_name g) workspace_group_regex workspace_group_replace) of
           Inl e \<Rightarrow> ([], Some e)
         | Inr name_in_account' \<Rightarrow>
             (case map_of account_groups_in_account name_in_account' of
                None \<Rightarrow> ([], Some (KeyError name_in_account'))
              | Some ag \<Rightarrow>
                  (let (rest, err) =
                         regex_sub_loop json_dumps sub account_groups_in_account
                           renamed_groups_prefix workspace_group_regex workspace_group_replace gs
                   in (\<lparr>id_in_workspace = group_id g,
                        name_in_workspace = display_name g,
                        name_in_account = name_in_account',
                        temporary_name = temporary_name',
                        members = dumps_if json_dumps (group_members g),
                        entitlements = dumps_if json_dumps (group_entitlements g),
                        external_id = group_external_id ag,
                        roles = dumps_if json_dumps (group_roles g)\<rparr> # rest, err))))"

definition RegexSubStrategy ::
  "(ComplexValue list \<Rightarrow> string) \<Rightarrow> re_sub \<Rightarrow> (string \<times> string Group) list \<Rightarrow> (string \<times> string Group) list
     \<Rightarrow> string \<Rightarrow> string list option \<Rightarrow> string \<Rightarrow> string \<Rightarrow> MigratedGroup generator" where
  "RegexSubStrategy json_dumps sub workspace_groups_in_workspace account_groups_in_account
       renamed_groups_prefix include_group_names workspace_group_regex workspace_group_replace =
     (let workspace_groups = get_filtered_groups workspace_groups_in_workspace include_group_names
      in regex_sub_loop json_dumps sub account_groups_in_account renamed_groups_prefix
           workspace_group_regex workspace_group_replace (map snd workspace_groups))"

text \<open>
  \<^verbatim>\<open>RegexMatchStrategy.generate_migrated_groups\<close>. Both indices are plain dictionaries
  keyed by the derived key, so a later group with the same key replaces an earlier one.
  They are built before the first correspondence is yielded; an exception that
  \<open>safe_match\<close> lets through while they are built ends the generator with nothing
  yielded.
\<close>

fun regex_match_loop ::
  "(ComplexValue list \<Rightarrow> string) \<Rightarrow> (string option \<times> string Group) list \<Rightarrow> string
     \<Rightarrow> (string option \<times> string Group) list \<Rightarrow> MigratedGroup list" where
  "regex_match_loop json_dumps account_groups_by_match renamed_groups_prefix [] = []"
| "regex_match_loop json_dumps account_groups_by_match renamed_groups_prefix
       ((group_match, ws_group) # rest) =
     (let temporary_name' = renamed_groups_prefix @ display_name ws_group;
          account_group = map_of account_groups_by_match group_match
      in case account_group of
           Some ag \<Rightarrow>
             \<lparr>id_in_workspace = group_id ws_group,
              name_in_workspace = display_name ws_group,
              name_in_account = display_name ag,
              temporary_name = temporary_name',
              members = dumps_if json_dumps (group_members ws_group),
              entitlements = dumps_if json_dumps (group_entitlements ws_group),
              external_id = group_external_id ag,
              roles = dumps_if json_dumps (group_roles ws_group)\<rparr>
             # regex_match_loop json_dumps account_groups_by_match renamed_groups_prefix rest
         | None \<Rightarrow> regex_match_loop json_dumps account_groups_by_match renamed_groups_prefix rest)"

fun groups_by_match_loop ::
  "re_search \<Rightarrow> string \<Rightarrow> (string option \<times> string Group) list \<Rightarrow> (string \<times> string Group) list
     \<Rightarrow> exn + (string option \<times> string Group) list" where
  "groups_by_match_loop search regex d [] = Inr d"
| "groups_by_match_loop search regex d ((group_name, grp) # items) =
     (case safe_match search group_name regex of
        Inl e \<Rightarrow> Inl e
      | Inr k \<Rightarrow> groups_by_match_loop search regex (AList.update k grp d) items)"

definition groups_by_match ::
  "re_search \<Rightarrow> string \<Rightarrow> (string \<times> string Group) list
     \<Rightarrow> exn + (string option \<times> string Group) list" where
  "groups_by_match search regex items = groups_by_match_loop search regex [] items"

definition RegexMatchStrategy ::
  "(ComplexValue list \<Rightarrow> string) \<Rightarrow> re_search \<Rightarrow> (string \<times> string Group) list
     \<Rightarrow> (string \<times> string Group) list \<Rightarrow> string \<Rightarrow> string list option \<Rightarrow> string \<Rightarrow> string
     \<Rightarrow> MigratedGroup generator" where
  "RegexMatchStrategy json_dumps search workspace_groups_in_workspace account_groups_in_account
       renamed_groups_prefix include_group_names workspace_group_regex account_group_regex =
     (case groups_by_match search workspace_group_regex
             (get_filtered_groups workspace_groups_in_workspace include_group_names) of
        Inl e \<Rightarrow> ([], Some e)
      | Inr workspace_groups_by_match \<Rightarrow>
          (case groups_by_match search account_group_regex account_groups_in_account of
             Inl e \<Rightarrow> ([], Some e)
           | Inr account_groups_by_match \<Rightarrow>
               (regex_match_loop json_dumps account_groups_by_match renamed_groups_prefix
                  workspace_groups_by_match, None)))"

subsection \<open>Remote calls\<close>

text \<open>
  A call that may touch the remote directory service takes the remote state and gives
  the value it returned or the exception it raised, with the state it left behind.
\<close>

type_synonym ('s, 'a) call = "'s \<Rightarrow> (exn + 'a) \<times> 's"

definition call_return :: "'a \<Rightarrow> ('s, 'a) call" where
  "call_return v s = (Inr v, s)"

definition call_raise :: "exn \<Rightarrow> ('s, 'a) call" where
  "call_raise e s = (Inl e, s)"

definition call_bind :: "('s, 'a) call \<Rightarrow> ('a \<Rightarrow> ('s, 'b) call) \<Rightarrow> ('s, 'b) call" where
  "call_bind m f s = (case m s of (Inl e, s') \<Rightarrow> (Inl e, s') | (Inr v, s') \<Rightarrow> f v s')"

text \<open>
  The remote directory client, \<^verbatim>\<open>WorkspaceClient\<close> of the SDK, as far as this module
  calls it: \<^verbatim>\<open>groups.list(attributes=...)\<close>, \<^verbatim>\<open>groups.get(id)\<close>,
  \<^verbatim>\<open>groups.patch(id, operations=[Patch(REPLACE, "displayName", name)])\<close>,
  \<^verbatim>\<open>groups.delete(id=...)\<close>, the \<^verbatim>\<open>PUT\<close> of a permission assignment for an account group id,
  and the \<^verbatim>\<open>GET\<close> of the account's groups (parsed with \<^verbatim>\<open>Group.from_dict\<close>). The
  comma-separated attribute string is kept as the list of its parts.
\<close>

record 's WorkspaceClient =
  groups_list :: "string list \<Rightarrow> ('s, string option Group list) call"
  groups_get :: "string \<Rightarrow> ('s, string option Group) call"
  groups_patch :: "string \<Rightarrow> string \<Rightarrow> ('s, unit) call"
  groups_delete :: "string \<Rightarrow> ('s, unit) call"
  put_permissionassignments :: "string \<Rightarrow> ('s, unit) call"
  get_account_groups :: "string list \<Rightarrow> ('s, string option Group list) call"

text \<open>
  The group manager: its client and the two retry budgets. Time is not modelled; a
  timeout is the number of retries that fit into it. \<open>retry_timeout\<close> stands for the
  default timeout of \<^verbatim>\<open>retried\<close>, \<open>verify_timeout\<close> for \<^verbatim>\<open>self._verify_timeout\<close>.
\<close>

record 's GroupManager =
  ws :: "'s WorkspaceClient"
  verify_timeout :: nat
  retry_timeout :: nat

text \<open>
  Modelled from the spec: \<^verbatim>\<open>retried\<close> of the SDK, whose code is not part of the sources
  ("on a fixed allow-list of transient error kinds, retry with backoff until a bounded
  overall timeout elapses, then surface the last error"). An exception outside the
  allow-list is raised at once.
\<close>

primrec retried :: "exn list \<Rightarrow> nat \<Rightarrow> ('s, 'a) call \<Rightarrow> ('s, 'a) call" where
  "retried on 0 f s = f s"
| "retried on (Suc n) f s =
     (case f s of
        (Inl e, s') \<Rightarrow> if e \<in> set on then retried on n f s' else (Inl e, s')
      | (Inr v, s') \<Rightarrow> (Inr v, s'))"

text \<open>
  Modelled from the spec: \<^verbatim>\<open>rate_limited\<close> of \<^verbatim>\<open>mixins/hardening.py\<close>, which is not part
  of the sources ("cap of N calls per rolling time window"). The cap delays a call;
  it changes neither its result nor its effect.
\<close>

definition rate_limited :: "nat \<Rightarrow> nat option \<Rightarrow> ('s, 'a) call \<Rightarrow> ('s, 'a) call" where
  "rate_limited max_requests burst_period_seconds f = f"

text \<open>
  Modelled from the spec: \<^verbatim>\<open>Threads.gather\<close> of \<^verbatim>\<open>framework/parallel.py\<close>, which is not
  part of the sources ("Accepts a labeled batch of independent jobs. Does not cancel
  sibling jobs when one fails. After all jobs finish, returns (successes, failures)"). The
  phases hand it the label of the batch and the jobs, each the bare
  \<^verbatim>\<open>functools.partial\<close> of an operation: a failure is the exception the job raised. The
  jobs run one after the other in the order of the batch, which is one of the schedules
  of the worker pool.
\<close>

fun gather :: "string \<Rightarrow> ('s, 'a) call list \<Rightarrow> 's \<Rightarrow> ('a list \<times> exn list) \<times> 's" where
  "gather name [] s = (([], []), s)"
| "gather name (job # tasks) s =
     (case job s of
        (Inl e, s') \<Rightarrow>
          (case gather name tasks s' of ((oks, errs), s'') \<Rightarrow> ((oks, e # errs), s''))
      | (Inr v, s') \<Rightarrow>
          (case gather name tasks s' of ((oks, errs), s'') \<Rightarrow> ((v # oks, errs), s'')))"

text \<open>
  The outcome of every job of a batch, in the order in which \<open>gather\<close> runs them, and
  the failures among such outcomes.
\<close>

fun job_outcomes :: "('s, 'a) call list \<Rightarrow> 's \<Rightarrow> (exn + 'a) list" where
  "job_outcomes [] s = []"
| "job_outcomes (job # tasks) s = (case job s of (r, s') \<Rightarrow> r # job_outcomes tasks s')"

fun failures_of :: "(exn + 'a) list \<Rightarrow> exn list" where
  "failures_of [] = []"
| "failures_of (Inl e # rest) = e # failures_of rest"
| "failures_of (Inr v # rest) = failures_of rest"

subsection \<open>Correspondence store\<close>

record MigrationState =
  name_to_group :: "(string \<times> MigratedGroup) list"
  id_to_group :: "(string \<times> MigratedGroup) list"
  groups :: "MigratedGroup list"

text \<open>\<^verbatim>\<open>MigrationState.__init__\<close>, and \<^verbatim>\<open>GroupManager.get_migration_state\<close> of a snapshot.\<close>

definition get_migration_state :: "MigratedGroup list \<Rightarrow> MigrationState" where
  "get_migration_state snapshot =
     \<lparr>name_to_group = foldl (\<lambda>d mg. AList.update (name_in_workspace mg) mg d) [] snapshot,
      id_to_group = foldl (\<lambda>d mg. AList.update (id_in_workspace mg) mg d) [] snapshot,
      groups = snapshot\<rparr>"

definition get_target_principal :: "MigrationState \<Rightarrow> string \<Rightarrow> string option" where
  "get_target_principal state name =
     (case map_of (name_to_group state) name of
        None \<Rightarrow> None
      | Some mg \<Rightarrow> Some (name_in_account mg))"

definition is_in_scope :: "MigrationState \<Rightarrow> string \<Rightarrow> bool" where
  "is_in_scope state name = (name \<in> fst ` set (name_to_group state))"

subsection \<open>Remote operations of the group manager\<close>

text \<open>\<^verbatim>\<open>GroupManager._rename_group\<close>: no decorator, no handler.\<close>

definition rename_group :: "'s GroupManager \<Rightarrow> string \<Rightarrow> string \<Rightarrow> ('s, bool) call" where
  "rename_group self gid new_group_name =
     call_bind (groups_patch (ws self) gid new_group_name) (\<lambda>_. call_return True)"

text \<open>
  \<^verbatim>\<open>GroupManager._delete_workspace_group\<close>: \<^verbatim>\<open>NotFound\<close> is caught inside the rate-limited
  body, which \<^verbatim>\<open>retried\<close> wraps.
\<close>

definition delete_workspace_group :: "'s GroupManager \<Rightarrow> string \<Rightarrow> string \<Rightarrow> ('s, unit) call" where
  "delete_workspace_group self gid display_name' =
     retried [InternalError, ResourceConflict, DeadlineExceeded] (retry_timeout self)
       (rate_limited 35 (Some 60)
          (\<lambda>s. case groups_delete (ws self) gid s of
                  (Inl e, s') \<Rightarrow> if e = NotFound then (Inr (), s') else (Inl e, s')
                | (Inr _, s') \<Rightarrow> (Inr (), s')))"

text \<open>
  \<^verbatim>\<open>GroupManager._reflect_account_group_to_workspace\<close>: \<^verbatim>\<open>BadRequest\<close> ("already exists")
  is caught inside the rate-limited body.
\<close>

definition reflect_account_group_to_workspace :: "'s GroupManager \<Rightarrow> string \<Rightarrow> ('s, bool) call" where
  "reflect_account_group_to_workspace self account_group_id =
     retried [InternalError, ResourceConflict, DeadlineExceeded] (retry_timeout self)
       (rate_limited 10 None
          (\<lambda>s. case put_permissionassignments (ws self) account_group_id s of
                  (Inl e, s') \<Rightarrow> if e = BadRequest then (Inr True, s') else (Inl e, s')
                | (Inr _, s') \<Rightarrow> (Inr True, s')))"

text \<open>\<^verbatim>\<open>GroupManager._get_group\<close>.\<close>

definition get_group :: "'s GroupManager \<Rightarrow> string \<Rightarrow> ('s, string option Group option) call" where
  "get_group self gid =
     rate_limited 255 (Some 60)
       (\<lambda>s. case groups_get (ws self) gid s of
               (Inl e, s') \<Rightarrow> if e = NotFound then (Inr None, s') else (Inl e, s')
             | (Inr g, s') \<Rightarrow> (Inr (Some g), s'))"

subsection \<open>Listings\<close>

definition SYSTEM_GROUPS :: "string list" where
  "SYSTEM_GROUPS = [''users'', ''admins'', ''account users'']"

text \<open>\<^verbatim>\<open>GroupManager._is_group_out_of_scope\<close>.\<close>

definition is_group_out_of_scope :: "string option Group \<Rightarrow> string \<Rightarrow> bool" where
  "is_group_out_of_scope g resource_type' =
     (if display_name g \<in> Some ` set SYSTEM_GROUPS then True
      else case meta g of
             None \<Rightarrow> False
           | Some m \<Rightarrow> if resource_type m \<noteq> Some resource_type' then True else False)"

text \<open>
  \<^verbatim>\<open>GroupManager._list_workspace_groups\<close>: the loop of the branch that fetches every
  group again with all its attributes, then the function.
\<close>

fun list_with_all_attributes ::
  "(string \<Rightarrow> ('s, string option Group option) call) \<Rightarrow> string \<Rightarrow> string option Group list
     \<Rightarrow> ('s, string option Group list) call" where
  "list_with_all_attributes get_group' resource_type' [] = call_return []"
| "list_with_all_attributes get_group' resource_type' (g # gs) =
     (if is_group_out_of_scope g resource_type'
      then list_with_all_attributes get_group' resource_type' gs
      else call_bind (get_group' (group_id g)) (\<lambda>group_with_all_attributes.
           call_bind (list_with_all_attributes get_group' resource_type' gs) (\<lambda>results.
           call_return (case group_with_all_attributes of
                          None \<Rightarrow> results
                        | Some full \<Rightarrow> full # results))))"

definition list_workspace_groups ::
  "'s GroupManager \<Rightarrow> string \<Rightarrow> string list \<Rightarrow> ('s, string option Group list) call" where
  "list_workspace_groups self resource_type' scim_attributes =
     (if ''members'' \<in> set scim_attributes
      then (let attributes = remove1 ''members'' scim_attributes;
                get_group' = (\<lambda>gid. retried [InternalError] (verify_timeout self) (get_group self gid))
            in call_bind (groups_list (ws self) attributes)
                 (list_with_all_attributes get_group' resource_type'))
      else call_bind (groups_list (ws self) scim_attributes) (\<lambda>gs.
           call_return (filter (\<lambda>g. \<not> is_group_out_of_scope g resource_type') gs)))"

text \<open>
  The loop shared by the three listings by name: a group whose display name is missing
  or empty is skipped, a later group replaces an earlier one of the same name.
\<close>

definition by_display_name :: "string option Group list \<Rightarrow> (string \<times> string Group) list" where
  "by_display_name gs =
     foldl (\<lambda>groups' g. case display_name g of
                            None \<Rightarrow> groups'
                          | Some n \<Rightarrow> if n = [] then groups'
                                      else AList.update n (named n g) groups') [] gs"

text \<open>\<^verbatim>\<open>GroupManager._workspace_groups_in_workspace\<close>.\<close>

definition workspace_groups_in_workspace ::
  "'s GroupManager \<Rightarrow> ('s, (string \<times> string Group) list) call" where
  "workspace_groups_in_workspace self =
     call_bind
       (list_workspace_groups self ''WorkspaceGroup''
          [''id'', ''displayName'', ''meta'', ''externalId'', ''members'', ''roles'',
           ''entitlements''])
       (\<lambda>gs. call_return (by_display_name gs))"

text \<open>\<^verbatim>\<open>GroupManager._account_groups_in_workspace\<close>.\<close>

definition account_groups_in_workspace ::
  "'s GroupManager \<Rightarrow> ('s, (string \<times> string Group) list) call" where
  "account_groups_in_workspace self =
     call_bind
       (list_workspace_groups self ''Group'' [''id'', ''displayName'', ''externalId'', ''meta''])
       (\<lambda>gs. call_return (by_display_name gs))"

text \<open>
  Python's \<^verbatim>\<open>sorted(account_groups, key=lambda _: _.display_name)\<close>. The sort is stable.
  Sorting two or more groups compares the key of every one of them with another, and
  comparing \<^verbatim>\<open>None\<close> raises \<^verbatim>\<open>TypeError\<close>; a list of fewer than two is returned without a
  comparison.
\<close>

definition sorted_by_display_name :: "string option Group list \<Rightarrow> exn + string option Group list" where
  "sorted_by_display_name gs =
     (if 2 \<le> length gs \<and> None \<in> display_name ` set gs then Inl TypeError
      else Inr (sort_key (\<lambda>g. case display_name g of None \<Rightarrow> [] | Some n \<Rightarrow> n) gs))"

text \<open>\<^verbatim>\<open>GroupManager._list_account_groups\<close> and \<^verbatim>\<open>GroupManager._account_groups_in_account\<close>.\<close>

definition list_account_groups ::
  "'s GroupManager \<Rightarrow> string list \<Rightarrow> ('s, string option Group list) call" where
  "list_account_groups self scim_attributes =
     call_bind (get_account_groups (ws self) scim_attributes) (\<lambda>raw.
       let account_groups = filter (\<lambda>g. display_name g \<notin> Some ` set SYSTEM_GROUPS) raw
       in case sorted_by_display_name account_groups of
            Inl e \<Rightarrow> call_raise e
          | Inr sorted_groups \<Rightarrow> call_return sorted_groups)"

definition account_groups_in_account ::
  "'s GroupManager \<Rightarrow> ('s, (string \<times> string Group) list) call" where
  "account_groups_in_account self =
     call_bind (list_account_groups self [''id'', ''displayName'', ''externalId''])
       (\<lambda>gs. call_return (by_display_name gs))"

subsection \<open>Phases\<close>

text \<open>\<^verbatim>\<open>GroupManager.rename_groups\<close>: the loop that schedules the jobs, then the phase.\<close>

fun rename_tasks ::
  "'s GroupManager \<Rightarrow> (string \<times> string Group) list \<Rightarrow> (string \<times> string Group) list
     \<Rightarrow> MigratedGroup list \<Rightarrow> ('s, bool) call list" where
  "rename_tasks self account_groups_in_workspace' workspace_groups_in_workspace' [] = []"
| "rename_tasks self account_groups_in_workspace' workspace_groups_in_workspace' (mg # rest) =
     (if name_in_account mg \<in> fst ` set account_groups_in_workspace'
      then rename_tasks self account_groups_in_workspace' workspace_groups_in_workspace' rest
      else if temporary_name mg \<in> fst ` set workspace_groups_in_workspace'
      then rename_tasks self account_groups_in_workspace' workspace_groups_in_workspace' rest
      else rename_group self (id_in_workspace mg) (temporary_name mg)
           # rename_tasks self account_groups_in_workspace' workspace_groups_in_workspace' rest)"

definition rename_groups :: "'s GroupManager \<Rightarrow> MigratedGroup list \<Rightarrow> ('s, unit) call" where
  "rename_groups self snapshot =
     call_bind (account_groups_in_workspace self) (\<lambda>account_groups_in_workspace'.
     call_bind (workspace_groups_in_workspace self) (\<lambda>workspace_groups_in_workspace'.
       let groups_to_migrate = groups (get_migration_state snapshot);
           tasks = rename_tasks self account_groups_in_workspace' workspace_groups_in_workspace'
                     groups_to_migrate
       in (\<lambda>s. case gather ''rename groups in the workspace'' tasks s of
                  ((_, errors), s') \<Rightarrow>
                    if length errors > 0 then (Inl (ManyError errors), s') else (Inr (), s'))))"



text \<open>\<^verbatim>\<open>GroupManager.delete_original_workspace_groups\<close>.\<close>

fun delete_tasks ::
  "'s GroupManager \<Rightarrow> (string \<times> string Group) list \<Rightarrow> (string \<times> string Group) list
     \<Rightarrow> MigratedGroup list \<Rightarrow> ('s, unit) call list" where
  "delete_tasks self workspace_groups_in_workspace' account_groups_in_workspace' [] = []"
| "delete_tasks self workspace_groups_in_workspace' account_groups_in_workspace' (mg # rest) =
     (if temporary_name mg \<notin> fst ` set workspace_groups_in_workspace'
      then delete_tasks self workspace_groups_in_workspace' account_groups_in_workspace' rest
      else if name_in_account mg \<notin> fst ` set account_groups_in_workspace'
      then delete_tasks self workspace_groups_in_workspace' account_groups_in_workspace' rest
      else delete_workspace_group self (id_in_workspace mg) (temporary_name mg)
           # delete_tasks self workspace_groups_in_workspace' account_groups_in_workspace' rest)"

definition delete_original_workspace_groups ::
  "'s GroupManager \<Rightarrow> MigratedGroup list \<Rightarrow> ('s, unit) call" where
  "delete_original_workspace_groups self snapshot =
     call_bind (workspace_groups_in_workspace self) (\<lambda>workspace_groups_in_workspace'.
     call_bind (account_groups_in_workspace self) (\<lambda>account_groups_in_workspace'.
       let tasks = delete_tasks self workspace_groups_in_workspace' account_groups_in_workspace'
                     snapshot
       in (\<lambda>s. case gather ''removing original workspace groups'' tasks s of
                  ((_, errors), s') \<Rightarrow>
                    if length errors > 0 then (Inl (ManyError errors), s') else (Inr (), s'))))"

subsection \<open>A directory service\<close>

text \<open>
  Modelled from the spec: the remote directory service behind the client, which is not
  part of the sources ("list groups scoped to workspace or account with an attribute
  projection; fetch one group's full detail by id; patch a group's display name; delete a
  group by id; assign an account group into a workspace with a permission level
  (idempotent on already exists)"). The state holds the groups the workspace endpoint
  lists (workspace-local groups and account groups assigned to the workspace), the groups
  of the account, and the mutating calls received so far, oldest first. A call on an id
  that does not exist answers \<^verbatim>\<open>NotFound\<close>.
\<close>

datatype remote_call = Patch string string | Delete string | PutAssignment string

record directory =
  workspace_directory :: "string option Group list"
  account_directory :: "string option Group list"
  call_log :: "remote_call list"

text \<open>The attribute projection of a listing; the id is always returned.\<close>

definition project :: "string list \<Rightarrow> string option Group \<Rightarrow> string option Group" where
  "project attributes g =
     \<lparr>group_id = group_id g,
      display_name = (if ''displayName'' \<in> set attributes then display_name g else None),
      group_external_id = (if ''externalId'' \<in> set attributes then group_external_id g else None),
      meta = (if ''meta'' \<in> set attributes then meta g else None),
      group_members = (if ''members'' \<in> set attributes then group_members g else None),
      group_roles = (if ''roles'' \<in> set attributes then group_roles g else None),
      group_entitlements =
        (if ''entitlements'' \<in> set attributes then group_entitlements g else None)\<rparr>"

definition directory_client :: "directory WorkspaceClient" where
  "directory_client =
     \<lparr>groups_list = (\<lambda>attributes d. (Inr (map (project attributes) (workspace_directory d)), d)),
      groups_get = (\<lambda>gid d.
        case find (\<lambda>g. group_id g = gid) (workspace_directory d) of
          None \<Rightarrow> (Inl NotFound, d)
        | Some g \<Rightarrow> (Inr g, d)),
      groups_patch = (\<lambda>gid new_name d.
        let d' = d\<lparr>call_log := call_log d @ [Patch gid new_name]\<rparr>
        in if gid \<in> group_id ` set (workspace_directory d)
           then (Inr (),
                 d'\<lparr>workspace_directory :=
                      map (\<lambda>g. if group_id g = gid then g\<lparr>display_name := Some new_name\<rparr>
                                else g)
                        (workspace_directory d)\<rparr>)
           else (Inl NotFound, d')),
      groups_delete = (\<lambda>gid d.
        let d' = d\<lparr>call_log := call_log d @ [Delete gid]\<rparr>
        in if gid \<in> group_id ` set (workspace_directory d)
           then (Inr (),
                 d'\<lparr>workspace_directory :=
                      filter (\<lambda>g. group_id g \<noteq> gid) (workspace_directory d)\<rparr>)
           else (Inl NotFound, d')),
      put_permissionassignments = (\<lambda>account_group_id d.
        let d' = d\<lparr>call_log := call_log d @ [PutAssignment account_group_id]\<rparr>
        in case find (\<lambda>g. group_id g = account_group_id) (account_directory d) of
             None \<Rightarrow> (Inl NotFound, d')
           | Some g \<Rightarrow>
               if account_group_id \<in> group_id ` set (workspace_directory d)
               then (Inl BadRequest, d')
               else (Inr (),
                     d'\<lparr>workspace_directory :=
                          workspace_directory d
                          @ [g\<lparr>meta := Some \<lparr>resource_type = Some ''Group''\<rparr>\<rparr>]\<rparr>)),
      get_account_groups = (\<lambda>attributes d.
        (Inr (map (project attributes) (account_directory d)), d))\<rparr>"

text \<open>
  The same service behind an unreliable connection: the state carries, ahead of the
  directory, the faults of the coming mutating calls. A mutating call takes the first
  entry; it fails with that exception, or goes through to the directory when the entry is
  \<^verbatim>\<open>None\<close> or the script is used up. Reads always go through.
\<close>

definition faulty :: "(directory, 'a) call \<Rightarrow> (exn option list \<times> directory, 'a) call" where
  "faulty f s =
     (case s of
        (Some e # script, d) \<Rightarrow> (Inl e, (script, d))
      | (None # script, d) \<Rightarrow> (case f d of (r, d') \<Rightarrow> (r, (script, d')))
      | ([], d) \<Rightarrow> (case f d of (r, d') \<Rightarrow> (r, ([], d'))))"

definition reading :: "(directory, 'a) call \<Rightarrow> (exn option list \<times> directory, 'a) call" where
  "reading f s = (case s of (script, d) \<Rightarrow> (case f d of (r, d') \<Rightarrow> (r, (script, d'))))"

definition faulty_client :: "(exn option list \<times> directory) WorkspaceClient" where
  "faulty_client =
     \<lparr>groups_list = (\<lambda>attributes. reading (groups_list directory_client attributes)),
      groups_get = (\<lambda>gid. reading (groups_get directory_client gid)),
      groups_patch = (\<lambda>gid new_name. faulty (groups_patch directory_client gid new_name)),
      groups_delete = (\<lambda>gid. faulty (groups_delete directory_client gid)),
      put_permissionassignments = (\<lambda>account_group_id.
        faulty (put_permissionassignments directory_client account_group_id)),
      get_account_groups = (\<lambda>attributes. reading (get_account_groups directory_client attributes))\<rparr>"

subsection \<open>Example inputs\<close>

text \<open>
  The answers of CPython's \<^verbatim>\<open>re.search\<close> and \<^verbatim>\<open>re.sub\<close> on the calls the examples below
  make: \<^verbatim>\<open>([\<close> is rejected with \<^verbatim>\<open>re.error\<close>; the repeat count of \<^verbatim>\<open>a{4294967296}\<close> is rejected
  with \<^verbatim>\<open>OverflowError\<close>; \<^verbatim>\<open>^([a-z]+)-\<close> matches \<^verbatim>\<open>data-\<close> in \<^verbatim>\<open>data-eng\<close> with the capture
  group \<^verbatim>\<open>data\<close>; \<^verbatim>\<open>eng\<close> matches \<^verbatim>\<open>eng\<close> there, with no capture group; \<^verbatim>\<open>(x)?eng\<close> matches
  \<^verbatim>\<open>eng\<close> there, and its capture group takes no part; \<^verbatim>\<open>^qa-\<close> does not match;
  substituting for \<^verbatim>\<open>^\<close> a replacement that names the unknown group \<^verbatim>\<open>foo\<close> raises
  \<^verbatim>\<open>IndexError\<close>, substituting \<^verbatim>\<open>corp-\<close> for \<^verbatim>\<open>^\<close> prepends it. The examples make no other
  call.
\<close>

definition example_search :: re_search where
  "example_search pattern s =
     (if pattern = ''(['' then ReError
      else if pattern = ''a{4294967296}'' then ReRaised OverflowError
      else if pattern = ''^([a-z]+)-'' \<and> s = ''data-eng''
        then ReOk (Some \<lparr>match_group = ''data-'', match_groups = [Some ''data'']\<rparr>)
      else if pattern = ''eng'' \<and> s = ''data-eng''
        then ReOk (Some \<lparr>match_group = ''eng'', match_groups = []\<rparr>)
      else if pattern = ''(x)?eng'' \<and> s = ''data-eng''
        then ReOk (Some \<lparr>match_group = ''eng'', match_groups = [None]\<rparr>)
      else ReOk None)"

text \<open>The replacement \<^verbatim>\<open>\g<foo>\<close>; its first character is the backslash.\<close>

definition unknown_group_reference :: string where
  "unknown_group_reference = CHR 0x5C # ''g<foo>''"

definition example_sub :: re_sub where
  "example_sub pattern repl s =
     (if pattern = ''(['' then ReError
      else if pattern = ''a{4294967296}'' then ReRaised OverflowError
      else if pattern = ''^'' \<and> repl = unknown_group_reference then ReRaised IndexError
      else if pattern = ''^'' then ReOk (repl @ s)
      else ReOk s)"

definition example_dumps :: "ComplexValue list \<Rightarrow> string" where
  "example_dumps xs = ''[...]''"

definition example_group :: "string \<Rightarrow> 'n \<Rightarrow> 'n Group" where
  "example_group i n =
     \<lparr>group_id = i, display_name = n, group_external_id = None, meta = None,
      group_members = None, group_roles = None, group_entitlements = None\<rparr>"

text \<open>
  A workspace-local group and an account group as the workspace endpoint lists them, and
  group managers over the directory service and over the unreliable connection to it.
\<close>

definition example_workspace_group :: "string \<Rightarrow> 'n \<Rightarrow> 'n Group" where
  "example_workspace_group i n =
     (example_group i n)\<lparr>meta := Some \<lparr>resource_type = Some ''WorkspaceGroup''\<rparr>\<rparr>"

definition example_account_group :: "string \<Rightarrow> 'n \<Rightarrow> 'n Group" where
  "example_account_group i n =
     (example_group i n)\<lparr>meta := Some \<lparr>resource_type = Some ''Group''\<rparr>\<rparr>"

definition example_manager :: "directory GroupManager" where
  "example_manager = \<lparr>ws = directory_client, verify_timeout = 2, retry_timeout = 3\<rparr>"

definition example_faulty_manager :: "(exn option list \<times> directory) GroupManager" where
  "example_faulty_manager = \<lparr>ws = faulty_client, verify_timeout = 2, retry_timeout = 3\<rparr>"

definition example_correspondence :: "string \<Rightarrow> string \<Rightarrow> string \<Rightarrow> string \<Rightarrow> MigratedGroup" where
  "example_correspondence i n a t =
     \<lparr>id_in_workspace = i, name_in_workspace = n, name_in_account = a, temporary_name = t,
      members = None, entitlements = None, external_id = None, roles = None\<rparr>"

text \<open>
  A workspace in the middle of a migration: \<^verbatim>\<open>data-eng\<close> has been renamed and its account
  group is assigned to the workspace, \<^verbatim>\<open>qa\<close> has been renamed and its account group is not
  assigned yet.
\<close>

definition example_directory :: directory where
  "example_directory =
     \<lparr>workspace_directory =
        [example_workspace_group ''1'' (Some ''ucx-renamed-data-eng''),
         example_account_group ''7'' (Some ''data-eng''),
         example_workspace_group ''2'' (Some ''ucx-renamed-qa'')],
      account_directory = [example_group ''7'' (Some ''data-eng''), example_group ''8'' (Some ''qa'')],
      call_log = []\<rparr>"

text \<open>
  A workspace before the migration, and a snapshot with one correspondence for its group
  and one for a group that no longer exists.
\<close>

definition example_directory_before :: directory where
  "example_directory_before =
     \<lparr>workspace_directory = [example_workspace_group ''1'' (Some ''data-eng'')],
      account_directory = [example_group ''7'' (Some ''data-eng'')],
      call_log = []\<rparr>"








section \<open>Properties\<close>

subsection \<open>The include filter\<close>

lemma get_filtered_groups_empty:
  "get_filtered_groups wgs (Some []) = wgs"
  by (simp add: get_filtered_groups_def)

lemma get_filtered_groups_absent:
  "get_filtered_groups wgs None = wgs"
  by (simp add: get_filtered_groups_def)

text \<open>
  C10: an include filter that is present but empty behaves exactly like an absent one.
  \<open>get_filtered_groups\<close> tests the filter for truth, so with the empty list it returns
  every workspace group, as it does with \<^verbatim>\<open>None\<close>, and each of the four strategies
  generates the same correspondences for the empty list as for \<^verbatim>\<open>None\<close>.
\<close>

theorem empty_include_filter_is_absent_filter:
  "get_filtered_groups wgs (Some []) = wgs
   \<and> get_filtered_groups wgs (Some []) = get_filtered_groups wgs None
   \<and> MatchingNamesStrategy json_dumps wgs ags prefix (Some [])
       = MatchingNamesStrategy json_dumps wgs ags prefix None
   \<and> MatchByExternalIdStrategy json_dumps wgs ags prefix (Some [])
       = MatchByExternalIdStrategy json_dumps wgs ags prefix None
   \<and> RegexSubStrategy json_dumps sub wgs ags prefix (Some []) ws_regex ws_replace
       = RegexSubStrategy json_dumps sub wgs ags prefix None ws_regex ws_replace
   \<and> RegexMatchStrategy json_dumps search wgs ags prefix (Some []) ws_regex acc_regex
       = RegexMatchStrategy json_dumps search wgs ags prefix None ws_regex acc_regex"
  by (simp add: get_filtered_groups_empty get_filtered_groups_absent
        MatchingNamesStrategy_def MatchByExternalIdStrategy_def RegexSubStrategy_def
        RegexMatchStrategy_def)

subsection \<open>Regular expression helpers\<close>






lemma re_error_is_caught:
  "(sub match_re replace group_name = ReError
      \<longrightarrow> safe_sub sub group_name match_re replace
          = (Inr group_name,
             [''Failed to apply Regex Expression '' @ match_re @ '' on Group Name '' @ group_name]))
   \<and> (sub match_re replace group_name = ReOk s
      \<longrightarrow> safe_sub sub group_name match_re replace = (Inr s, []))
   \<and> (search match_re group_name = ReError \<or> search match_re group_name = ReOk None
      \<longrightarrow> safe_match search group_name match_re = Inr (Some group_name))"
  by (simp add: safe_sub_def safe_match_def)

lemma other_exceptions_are_raised:
  "(sub match_re replace group_name = ReRaised e
      \<longrightarrow> safe_sub sub group_name match_re replace = (Inl e, []))
   \<and> (search match_re group_name = ReRaised e
      \<longrightarrow> safe_match search group_name match_re = Inl e)"
  by (simp add: safe_sub_def safe_match_def)

text \<open>
  C9 at malformed input that \<^verbatim>\<open>re\<close> does not report as \<^verbatim>\<open>re.error\<close>: both helpers catch
  \<^verbatim>\<open>re.error\<close> only, so the \<^verbatim>\<open>OverflowError\<close> of an oversized repeat count in the
  expression and the \<^verbatim>\<open>IndexError\<close> of an unknown group name in the replacement are raised
  by \<open>safe_sub\<close>, and the \<^verbatim>\<open>OverflowError\<close> by \<open>safe_match\<close>, where an expression that
  \<^verbatim>\<open>re\<close> rejects with \<^verbatim>\<open>re.error\<close> gives the name back (with one warning from
  \<open>safe_sub\<close>).
\<close>

theorem regex_helpers_raise_on_malformed_input:
  "safe_sub example_sub ''data-eng'' ''a{4294967296}'' ''corp-'' = (Inl OverflowError, [])
   \<and> safe_sub example_sub ''data-eng'' ''^'' unknown_group_reference = (Inl IndexError, [])
   \<and> safe_match example_search ''data-eng'' ''a{4294967296}'' = Inl OverflowError
   \<and> safe_sub example_sub ''data-eng'' ''(['' ''corp-''
       = (Inr ''data-eng'', [''Failed to apply Regex Expression ([ on Group Name data-eng''])
   \<and> safe_match example_search ''data-eng'' ''(['' = Inr (Some ''data-eng'')"
  using other_exceptions_are_raised [of example_sub "''a{4294967296}''" "''corp-''" "''data-eng''"
          OverflowError example_search]
        other_exceptions_are_raised [of example_sub "''^''" unknown_group_reference "''data-eng''"
          IndexError]
        re_error_is_caught [of example_sub "''([''" "''corp-''" "''data-eng''" _ example_search]
  by (simp add: example_sub_def example_search_def unknown_group_reference_def)

subsection \<open>The Exact-name strategy\<close>

lemma get_filtered_groups_subset:
  "set (get_filtered_groups wgs incl) \<subseteq> set wgs"
  by (auto simp: get_filtered_groups_def split: option.splits)

lemma matching_names_loop_sound:
  "mg \<in> set (matching_names_loop J ags prefix gs) \<Longrightarrow>
     \<exists>g \<in> set gs. id_in_workspace mg = group_id g
       \<and> name_in_workspace mg = display_name g
       \<and> name_in_account mg = display_name g
       \<and> temporary_name mg = prefix @ display_name g
       \<and> display_name g \<in> fst ` set ags"
proof (induction gs)
  case Nil
  then show ?case by simp
next
  case (Cons g gs)
  show ?case
  proof (cases "map_of ags (display_name g)")
    case None
    with Cons show ?thesis by (auto simp: Let_def)
  next
    case (Some ag)
    then have "display_name g \<in> fst ` set ags"
      by (meson domI domIff map_of_eq_None_iff)
    with Cons Some show ?thesis by (auto simp: Let_def)
  qed
qed

text \<open>
  C7: for every workspace-group map and account-group map, the Exact-name strategy
  yields only correspondences whose \<open>name_in_workspace\<close> equals \<open>name_in_account\<close>, whose
  name is the display name of a workspace group of the map and a key of the account map,
  and whose temporary name is the prefix followed by the name; where the workspace map is
  keyed by display name, as the listing builds it, the name is a key of it too. The
  generator never raises. With the workspace group \<^verbatim>\<open>data-eng\<close>, the account group
  \<^verbatim>\<open>data-eng\<close> and the prefix \<^verbatim>\<open>ucx-renamed-\<close> it yields the single correspondence
  \<^verbatim>\<open>data-eng\<close>, \<^verbatim>\<open>data-eng\<close>, \<^verbatim>\<open>ucx-renamed-data-eng\<close>.
\<close>

theorem exact_name_strategy_pairs_identical_names:
  "(\<forall>mg \<in> set (fst (MatchingNamesStrategy json_dumps wgs ags prefix incl)).
       name_in_workspace mg = name_in_account mg
     \<and> name_in_workspace mg \<in> display_name ` snd ` set wgs
     \<and> name_in_account mg \<in> fst ` set ags
     \<and> temporary_name mg = prefix @ name_in_workspace mg)
   \<and> ((\<forall>(k, g) \<in> set wgs. display_name g = k) \<longrightarrow>
        (\<forall>mg \<in> set (fst (MatchingNamesStrategy json_dumps wgs ags prefix incl)).
           name_in_workspace mg \<in> fst ` set wgs))
   \<and> snd (MatchingNamesStrategy json_dumps wgs ags prefix incl) = None
   \<and> map (\<lambda>mg. (name_in_workspace mg, name_in_account mg, temporary_name mg))
        (fst (MatchingNamesStrategy json_dumps
                [(''data-eng'', g\<lparr>display_name := ''data-eng''\<rparr>)]
                [(''data-eng'', ag)] ''ucx-renamed-'' None))
      = [(''data-eng'', ''data-eng'', ''ucx-renamed-data-eng'')]"
proof -
  have sound: "\<exists>g \<in> snd ` set wgs. name_in_workspace mg = display_name g
       \<and> name_in_account mg = display_name g
       \<and> temporary_name mg = prefix @ display_name g
       \<and> display_name g \<in> fst ` set ags"
    if "mg \<in> set (fst (MatchingNamesStrategy json_dumps wgs ags prefix incl))" for mg
  proof -
    from that obtain g where g: "g \<in> set (map snd (get_filtered_groups wgs incl))"
      and p: "name_in_workspace mg = display_name g" "name_in_account mg = display_name g"
        "temporary_name mg = prefix @ display_name g" "display_name g \<in> fst ` set ags"
      using matching_names_loop_sound [of mg json_dumps ags prefix "map snd (get_filtered_groups wgs incl)"]
      by (auto simp: MatchingNamesStrategy_def)
    from g have "g \<in> snd ` set wgs"
      using get_filtered_groups_subset [of wgs incl] by auto
    with p show ?thesis by blast
  qed
  have c1: "\<forall>mg \<in> set (fst (MatchingNamesStrategy json_dumps wgs ags prefix incl)).
       name_in_workspace mg = name_in_account mg
     \<and> name_in_workspace mg \<in> display_name ` snd ` set wgs
     \<and> name_in_account mg \<in> fst ` set ags
     \<and> temporary_name mg = prefix @ name_in_workspace mg"
    using sound by force
  have c2: "(\<forall>(k, g) \<in> set wgs. display_name g = k) \<longrightarrow>
        (\<forall>mg \<in> set (fst (MatchingNamesStrategy json_dumps wgs ags prefix incl)).
           name_in_workspace mg \<in> fst ` set wgs)"
  proof (intro impI ballI)
    fix mg
    assume k: "\<forall>(k, g) \<in> set wgs. display_name g = k"
      and m: "mg \<in> set (fst (MatchingNamesStrategy json_dumps wgs ags prefix incl))"
    from sound [OF m] obtain k' g where "(k', g) \<in> set wgs" "name_in_workspace mg = display_name g"
      by auto
    with k show "name_in_workspace mg \<in> fst ` set wgs" by force
  qed
  have c3: "snd (MatchingNamesStrategy json_dumps wgs ags prefix incl) = None"
    by (simp add: MatchingNamesStrategy_def)
  have c4: "map (\<lambda>mg. (name_in_workspace mg, name_in_account mg, temporary_name mg))
        (fst (MatchingNamesStrategy json_dumps
                [(''data-eng'', g\<lparr>display_name := ''data-eng''\<rparr>)]
                [(''data-eng'', ag)] ''ucx-renamed-'' None))
      = [(''data-eng'', ''data-eng'', ''ucx-renamed-data-eng'')]"
    by (simp add: MatchingNamesStrategy_def get_filtered_groups_def)
  from c1 c2 c3 c4 show ?thesis by blast
qed

theorem exact_name_strategy_pairs_identical_names_witness:
  "MatchingNamesStrategy example_dumps
       [(''data-eng'', example_group ''1'' ''data-eng''), (''qa'', example_group ''2'' ''qa'')]
       [(''data-eng'', example_group ''7'' ''data-eng'')] ''ucx-renamed-'' None
     = ([\<lparr>id_in_workspace = ''1'', name_in_workspace = ''data-eng'',
          name_in_account = ''data-eng'', temporary_name = ''ucx-renamed-data-eng'',
          members = None, entitlements = None, external_id = None, roles = None\<rparr>], None)
   \<and> ''data-eng'' \<in> fst ` set [(''data-eng'', example_group ''1'' ''data-eng''),
                               (''qa'', example_group ''2'' ''qa'')]
   \<and> ''data-eng'' \<in> fst ` set [(''data-eng'', example_group ''7'' ''data-eng'')]"
  using exact_name_strategy_pairs_identical_names [of example_dumps
          "[(''data-eng'', example_group ''1'' ''data-eng''), (''qa'', example_group ''2'' ''qa'')]"
          "[(''data-eng'', example_group ''7'' ''data-eng'')]" "''ucx-renamed-''" None]
  by (simp add: MatchingNamesStrategy_def get_filtered_groups_def example_group_def dumps_if_def)

subsection \<open>The Regex-substitute strategy\<close>

lemma regex_sub_loop_spec:
  fixes sub re rp acc
  defines "derive \<equiv> \<lambda>g. fst (safe_sub sub (display_name g) re rp)"
  defines "ok \<equiv> \<lambda>g. \<exists>n. derive g = Inr n \<and> n \<in> fst ` set acc"
  assumes "regex_sub_loop J sub acc prefix re rp gs = (ys, err)"
  shows "map name_in_workspace ys = map display_name (takeWhile ok gs)
   \<and> map (\<lambda>mg. Inr (name_in_account mg)) ys = map derive (takeWhile ok gs)
   \<and> err = (case dropWhile ok gs of
              [] \<Rightarrow> None
            | g # _ \<Rightarrow> Some (case derive g of Inl e \<Rightarrow> e | Inr n \<Rightarrow> KeyError n))"
  using assms(3)
proof (induction gs arbitrary: ys err)
  case Nil
  then show ?case by simp
next
  case (Cons g gs)
  show ?case
  proof (cases "derive g")
    case (Inl e)
    then have "\<not> ok g" by (simp add: ok_def)
    with Cons.prems Inl show ?thesis by (simp add: derive_def)
  next
    case (Inr n)
    show ?thesis
    proof (cases "map_of acc n")
      case None
      then have "n \<notin> fst ` set acc" by (simp add: map_of_eq_None_iff)
      with Inr have "\<not> ok g" by (simp add: ok_def)
      with Cons.prems Inr None show ?thesis by (simp add: derive_def)
    next
      case (Some ag)
      then have "n \<in> fst ` set acc" by (meson domI domIff map_of_eq_None_iff)
      with Inr have okg: "ok g" by (simp add: ok_def)
      obtain rest e' where r: "regex_sub_loop J sub acc prefix re rp gs = (rest, e')"
        by (cases "regex_sub_loop J sub acc prefix re rp gs")
      from Cons.IH [OF r] Cons.prems Inr Some r okg show ?thesis
        by (auto simp: derive_def)
    qed
  qed
qed

text \<open>
  C3: when the Regex-substitute strategy derives, for some candidate group, a target
  name that is not among the account groups, the generator ends with the \<^verbatim>\<open>KeyError\<close> of
  the first such group's derived name: that group is not skipped, and no later group is
  looked at. The groups before it have been yielded, each under its derived account
  name. When every derived name is an account group, the generator does not raise and
  yields one correspondence per candidate. (Where the substitution itself raises for a
  candidate, the generator ends with that exception instead.)
\<close>

theorem regex_sub_missing_account_group_raises:
  fixes json_dumps sub wgs ags prefix incl workspace_group_regex workspace_group_replace
  defines "cands \<equiv> map snd (get_filtered_groups wgs incl)"
    and "derive \<equiv> \<lambda>g. fst (safe_sub sub (display_name g) workspace_group_regex workspace_group_replace)"
    and "result \<equiv> RegexSubStrategy json_dumps sub wgs ags prefix incl workspace_group_regex workspace_group_replace"
  defines "ok \<equiv> \<lambda>g. \<exists>n. derive g = Inr n \<and> n \<in> fst ` set ags"
  shows "((\<exists>g \<in> set cands. \<not> ok g) \<longrightarrow>
            (\<exists>g gs. dropWhile ok cands = g # gs
                \<and> ((\<exists>n. derive g = Inr n \<and> n \<notin> fst ` set ags
                         \<and> snd result = Some (KeyError n))
                   \<or> (\<exists>e. derive g = Inl e \<and> snd result = Some e))))
       \<and> ((\<forall>g \<in> set cands. ok g) \<longrightarrow>
            snd result = None \<and> length (fst result) = length cands)
       \<and> map name_in_workspace (fst result) = map display_name (takeWhile ok cands)
       \<and> map (\<lambda>mg. Inr (name_in_account mg)) (fst result) = map derive (takeWhile ok cands)"
proof -
  obtain ys err where r: "result = (ys, err)" by (cases result)
  then have loop: "regex_sub_loop json_dumps sub ags prefix workspace_group_regex workspace_group_replace cands = (ys, err)"
    by (simp add: result_def RegexSubStrategy_def cands_def)
  have spec: "map name_in_workspace ys = map display_name (takeWhile ok cands)
      \<and> map (\<lambda>mg. Inr (name_in_account mg)) ys = map derive (takeWhile ok cands)
      \<and> err = (case dropWhile ok cands of
                 [] \<Rightarrow> None
               | g # _ \<Rightarrow> Some (case derive g of Inl e \<Rightarrow> e | Inr n \<Rightarrow> KeyError n))"
    using regex_sub_loop_spec [OF loop] unfolding derive_def ok_def .
  then have names: "map name_in_workspace ys = map display_name (takeWhile ok cands)"
    and accs: "map (\<lambda>mg. Inr (name_in_account mg)) ys = map derive (takeWhile ok cands)"
    and err: "err = (case dropWhile ok cands of
                 [] \<Rightarrow> None
               | g # _ \<Rightarrow> Some (case derive g of Inl e \<Rightarrow> e | Inr n \<Rightarrow> KeyError n))"
    by blast+
  have a: "(\<exists>g \<in> set cands. \<not> ok g) \<longrightarrow>
            (\<exists>g gs. dropWhile ok cands = g # gs
                \<and> ((\<exists>n. derive g = Inr n \<and> n \<notin> fst ` set ags \<and> err = Some (KeyError n))
                   \<or> (\<exists>e. derive g = Inl e \<and> err = Some e)))"
  proof
    assume "\<exists>g \<in> set cands. \<not> ok g"
    then have "dropWhile ok cands \<noteq> []" by (simp add: dropWhile_eq_Nil_conv)
    then obtain g gs where d: "dropWhile ok cands = g # gs" by (cases "dropWhile ok cands") auto
    then have nok: "\<not> ok g" using hd_dropWhile [of ok cands] by auto
    from d err have e: "err = Some (case derive g of Inl e \<Rightarrow> e | Inr n \<Rightarrow> KeyError n)" by simp
    have "(\<exists>n. derive g = Inr n \<and> n \<notin> fst ` set ags \<and> err = Some (KeyError n))
                   \<or> (\<exists>e. derive g = Inl e \<and> err = Some e)"
    proof (cases "derive g")
      case (Inl x)
      with e show ?thesis by simp
    next
      case (Inr n)
      with nok have "n \<notin> fst ` set ags" by (simp add: ok_def)
      with Inr e show ?thesis by simp
    qed
    with d show "\<exists>g gs. dropWhile ok cands = g # gs
                \<and> ((\<exists>n. derive g = Inr n \<and> n \<notin> fst ` set ags \<and> err = Some (KeyError n))
                   \<or> (\<exists>e. derive g = Inl e \<and> err = Some e))"
      by blast
  qed
  have b: "(\<forall>g \<in> set cands. ok g) \<longrightarrow> err = None \<and> length ys = length cands"
  proof
    assume all: "\<forall>g \<in> set cands. ok g"
    then have "dropWhile ok cands = []" "takeWhile ok cands = cands"
      by (simp_all add: dropWhile_eq_Nil_conv takeWhile_eq_all_conv)
    with err names show "err = None \<and> length ys = length cands"
      by (metis length_map list.simps(4))
  qed
  from a b names accs r show ?thesis by simp
qed

theorem regex_sub_missing_account_group_raises_witness:
  "RegexSubStrategy example_dumps example_sub
       [(''a'', example_group ''1'' ''a''), (''data-eng'', example_group ''2'' ''data-eng''),
        (''b'', example_group ''3'' ''b'')]
       [(''corp-a'', example_group ''7'' ''corp-a''), (''corp-b'', example_group ''8'' ''corp-b'')]
       ''ucx-renamed-'' None ''^'' ''corp-''
     = ([\<lparr>id_in_workspace = ''1'', name_in_workspace = ''a'', name_in_account = ''corp-a'',
          temporary_name = ''ucx-renamed-a'', members = None, entitlements = None,
          external_id = None, roles = None\<rparr>],
        Some (KeyError ''corp-data-eng''))
   \<and> RegexSubStrategy example_dumps example_sub
       [(''a'', example_group ''1'' ''a'')]
       [(''corp-a'', example_group ''7'' ''corp-a'')]
       ''ucx-renamed-'' None ''^'' ''corp-''
     = ([\<lparr>id_in_workspace = ''1'', name_in_workspace = ''a'', name_in_account = ''corp-a'',
          temporary_name = ''ucx-renamed-a'', members = None, entitlements = None,
          external_id = None, roles = None\<rparr>], None)"
  using regex_sub_missing_account_group_raises [where json_dumps = example_dumps
          and sub = example_sub and workspace_group_regex = "''^''"
          and workspace_group_replace = "''corp-''" and prefix = "''ucx-renamed-''" and incl = None
          and wgs = "[(''a'', example_group ''1'' ''a''), (''data-eng'', example_group ''2'' ''data-eng''),
            (''b'', example_group ''3'' ''b'')]"
          and ags = "[(''corp-a'', example_group ''7'' ''corp-a''), (''corp-b'', example_group ''8'' ''corp-b'')]"]
        regex_sub_missing_account_group_raises [where json_dumps = example_dumps
          and sub = example_sub and workspace_group_regex = "''^''"
          and workspace_group_replace = "''corp-''" and prefix = "''ucx-renamed-''" and incl = None
          and wgs = "[(''a'', example_group ''1'' ''a'')]"
          and ags = "[(''corp-a'', example_group ''7'' ''corp-a'')]"]
  by (simp add: RegexSubStrategy_def get_filtered_groups_def example_group_def dumps_if_def
        safe_sub_def example_sub_def unknown_group_reference_def)

subsection \<open>Listings of the directory service\<close>

lemma retried_not_retryable:
  "(\<And>e s'. f s = (Inl e, s') \<Longrightarrow> e \<notin> set on) \<Longrightarrow> retried on n f s = f s"
  by (cases n; cases "f s") (auto split: sum.splits)

lemma get_group_directory:
  "ws self = directory_client \<Longrightarrow>
   get_group self gid d = (Inr (find (\<lambda>g. group_id g = gid) (workspace_directory d)), d)"
  by (simp add: get_group_def rate_limited_def directory_client_def split: option.splits)

lemma retried_get_group_directory:
  "ws self = directory_client \<Longrightarrow>
   retried on n (get_group self gid) d
     = (Inr (find (\<lambda>g. group_id g = gid) (workspace_directory d)), d)"
  by (subst retried_not_retryable) (simp_all add: get_group_directory)

lemma list_with_all_attributes_directory:
  "ws self = directory_client \<Longrightarrow>
   list_with_all_attributes (\<lambda>gid. retried on n (get_group self gid)) rt gs d
     = (Inr (List.map_filter
               (\<lambda>g. if is_group_out_of_scope g rt then None
                    else find (\<lambda>h. group_id h = group_id g) (workspace_directory d)) gs), d)"
  by (induction gs)
     (simp_all add: call_return_def call_bind_def retried_get_group_directory
        List.map_filter_simps split: option.splits)

lemma out_of_scope_project:
  "''displayName'' \<in> set attrs \<Longrightarrow> ''meta'' \<in> set attrs \<Longrightarrow>
   is_group_out_of_scope (project attrs g) rt = is_group_out_of_scope g rt"
  by (simp add: is_group_out_of_scope_def project_def)


lemma group_id_project: "group_id (project attrs g) = group_id g"
  by (simp add: project_def)

lemma find_distinct_id:
  "distinct (map group_id gs) \<Longrightarrow> g \<in> set gs \<Longrightarrow> find (\<lambda>h. group_id h = group_id g) gs = Some g"
  by (induction gs) (auto simp: image_iff)

lemma map_filter_find_distinct:
  assumes "distinct (map group_id all)" "set gs \<subseteq> set all"
  shows "List.map_filter
           (\<lambda>g. if is_group_out_of_scope (project attrs g) rt then None
                 else find (\<lambda>h. group_id h = group_id (project attrs g)) all) gs
         = filter (\<lambda>g. \<not> is_group_out_of_scope (project attrs g) rt) gs"
  using assms(2)
  by (induction gs) (auto simp: List.map_filter_simps group_id_project find_distinct_id [OF assms(1)])

lemma workspace_groups_in_workspace_directory:
  assumes "ws self = directory_client"
  shows "\<exists>wgiw. workspace_groups_in_workspace self d = (Inr wgiw, d)"
  using assms
  by (simp add: workspace_groups_in_workspace_def list_workspace_groups_def call_bind_def
        call_return_def Let_def list_with_all_attributes_directory directory_client_def)

lemma workspace_groups_in_workspace_distinct:
  assumes "ws self = directory_client" "distinct (map group_id (workspace_directory d))"
  shows "workspace_groups_in_workspace self d
     = (Inr (by_display_name
              (filter (\<lambda>g. \<not> is_group_out_of_scope g ''WorkspaceGroup'') (workspace_directory d))), d)"
proof -
  let ?attrs = "[''id'', ''displayName'', ''meta'', ''externalId'', ''roles'', ''entitlements'']"
  have l: "groups_list (ws self) ?attrs d = (Inr (map (project ?attrs) (workspace_directory d)), d)"
    using assms(1) by (simp add: directory_client_def)
  have m: "List.map_filter
           (\<lambda>g. if is_group_out_of_scope g ''WorkspaceGroup'' then None
                 else find (\<lambda>h. group_id h = group_id g) (workspace_directory d))
           (map (project ?attrs) (workspace_directory d))
      = filter (\<lambda>g. \<not> is_group_out_of_scope g ''WorkspaceGroup'') (workspace_directory d)"
    using map_filter_find_distinct [OF assms(2), of "workspace_directory d" ?attrs "''WorkspaceGroup''"]
    by (simp add: List.map_filter_def comp_def filter_map out_of_scope_project)
  show ?thesis
    using l m
    by (simp add: workspace_groups_in_workspace_def list_workspace_groups_def call_bind_def
          call_return_def Let_def list_with_all_attributes_directory [OF assms(1)])
qed

lemma account_groups_in_workspace_directory:
  assumes "ws self = directory_client"
  shows "account_groups_in_workspace self d
     = (Inr (by_display_name
              (filter (\<lambda>g. \<not> is_group_out_of_scope g ''Group'')
                 (map (project [''id'', ''displayName'', ''externalId'', ''meta''])
                    (workspace_directory d)))), d)"
  using assms
  by (simp add: account_groups_in_workspace_def list_workspace_groups_def call_bind_def
        call_return_def directory_client_def)



lemma example_directory_workspace_groups: "workspace_groups_in_workspace example_manager example_directory
   = (Inr [(''ucx-renamed-data-eng'', example_workspace_group ''1'' ''ucx-renamed-data-eng''),
           (''ucx-renamed-qa'', example_workspace_group ''2'' ''ucx-renamed-qa'')], example_directory)"
  using workspace_groups_in_workspace_distinct [of example_manager example_directory]
  by (simp add: example_manager_def example_directory_def is_group_out_of_scope_def SYSTEM_GROUPS_def
        example_workspace_group_def example_account_group_def example_group_def
        by_display_name_def named_def)

lemma example_directory_account_groups: "account_groups_in_workspace example_manager example_directory
   = (Inr [(''data-eng'', example_account_group ''7'' ''data-eng'')], example_directory)"
  using account_groups_in_workspace_directory [of example_manager example_directory]
  by (simp add: example_manager_def example_directory_def
        project_def is_group_out_of_scope_def SYSTEM_GROUPS_def
        example_workspace_group_def example_account_group_def example_group_def
        by_display_name_def named_def)

subsection \<open>The delete phase\<close>

lemma delete_tasks_filter:
  "delete_tasks self wgiw agiw snapshot
     = map (\<lambda>mg. delete_workspace_group self (id_in_workspace mg) (temporary_name mg))
         (filter (\<lambda>mg. temporary_name mg \<in> fst ` set wgiw \<and> name_in_account mg \<in> fst ` set agiw)
            snapshot)"
  by (induction snapshot) auto

lemma delete_workspace_group_directory:
  assumes "ws self = directory_client"
  shows "delete_workspace_group self gid nm d
     = (Inr (), d\<lparr>workspace_directory := filter (\<lambda>g. group_id g \<noteq> gid) (workspace_directory d),
                  call_log := call_log d @ [Delete gid]\<rparr>)"
proof -
  let ?body = "\<lambda>s. case groups_delete (ws self) gid s of
                  (Inl e, s') \<Rightarrow> if e = NotFound then (Inr (), s') else (Inl e, s')
                | (Inr _, s') \<Rightarrow> (Inr (), s')"
  have same: "gid \<notin> group_id ` set (workspace_directory d) \<Longrightarrow>
      filter (\<lambda>g. group_id g \<noteq> gid) (workspace_directory d) = workspace_directory d"
    by (induction "workspace_directory d") (auto simp: filter_id_conv)
  have body: "?body d = (Inr (), d\<lparr>workspace_directory := filter (\<lambda>g. group_id g \<noteq> gid) (workspace_directory d),
                  call_log := call_log d @ [Delete gid]\<rparr>)"
    using assms same by (auto simp: directory_client_def Let_def)
  show ?thesis
    unfolding delete_workspace_group_def rate_limited_def
    by (subst retried_not_retryable) (simp_all add: body)
qed

lemma gather_delete_generic:
  assumes "\<And>mg d. job mg d
     = (Inr (), d\<lparr>workspace_directory := filter (\<lambda>g. group_id g \<noteq> id_in_workspace mg) (workspace_directory d),
                  call_log := call_log d @ [Delete (id_in_workspace mg)]\<rparr>)"
  shows "gather name (map job mgs) d
     = ((map (\<lambda>_. ()) mgs, []),
        d\<lparr>workspace_directory :=
             filter (\<lambda>g. group_id g \<notin> id_in_workspace ` set mgs) (workspace_directory d),
           call_log := call_log d @ map (\<lambda>mg. Delete (id_in_workspace mg)) mgs\<rparr>)"
proof (induction mgs arbitrary: d)
  case Nil
  then show ?case by simp
next
  case (Cons mg mgs)
  have f: "filter (\<lambda>g. group_id g \<noteq> id_in_workspace mg \<and> group_id g \<notin> id_in_workspace ` set mgs) (workspace_directory d)
         = filter (\<lambda>g. group_id g \<notin> id_in_workspace ` set (mg # mgs)) (workspace_directory d)"
    by (auto intro: filter_cong)
  have step: "job mg d
     = (Inr (), d\<lparr>workspace_directory := filter (\<lambda>g. group_id g \<noteq> id_in_workspace mg) (workspace_directory d),
                  call_log := call_log d @ [Delete (id_in_workspace mg)]\<rparr>)"
    by (rule assms)
  show ?case
    using f by (simp add: step Cons)
qed

lemma gather_delete_directory:
  assumes "ws self = directory_client"
  shows "gather name (map (\<lambda>mg. delete_workspace_group self (id_in_workspace mg)
                                  (temporary_name mg)) mgs) d
     = ((map (\<lambda>_. ()) mgs, []),
        d\<lparr>workspace_directory :=
             filter (\<lambda>g. group_id g \<notin> id_in_workspace ` set mgs) (workspace_directory d),
           call_log := call_log d @ map (\<lambda>mg. Delete (id_in_workspace mg)) mgs\<rparr>)"
  by (rule gather_delete_generic) (rule delete_workspace_group_directory [OF assms])

text \<open>
  C1: for every snapshot and every pair of listings, the delete phase schedules a
  deletion for exactly the correspondences whose \<open>temporary_name\<close> is in the workspace
  listing and whose \<open>name_in_account\<close> is in the listing of the account groups visible in
  the workspace, and for no other. Run against the directory service, the phase issues
  one delete call for each of them and no other mutating call, and every group whose id
  is not the \<open>id_in_workspace\<close> of such a correspondence is still there afterwards: a
  group whose account counterpart is not yet visible in the workspace is not deleted.
\<close>

theorem delete_only_after_reflect:
  fixes self :: "directory GroupManager"
  defines "ready \<equiv> \<lambda>wgiw agiw mg. temporary_name mg \<in> fst ` set wgiw \<and> name_in_account mg \<in> fst ` set agiw"
  shows "delete_tasks self' wgiw agiw snapshot
       = map (\<lambda>mg. delete_workspace_group self' (id_in_workspace mg) (temporary_name mg))
           (filter (ready wgiw agiw) snapshot)
     \<and> (ws self = directory_client
        \<and> workspace_groups_in_workspace self d = (Inr wgiw, d1)
        \<and> account_groups_in_workspace self d1 = (Inr agiw, d2)
        \<longrightarrow> delete_original_workspace_groups self snapshot d
            = (Inr (),
               d\<lparr>workspace_directory :=
                    filter (\<lambda>g. group_id g \<notin> id_in_workspace ` set (filter (ready wgiw agiw) snapshot))
                      (workspace_directory d),
                  call_log := call_log d
                    @ map (\<lambda>mg. Delete (id_in_workspace mg)) (filter (ready wgiw agiw) snapshot)\<rparr>))"
proof -
  have a: "delete_tasks self' wgiw agiw snapshot
       = map (\<lambda>mg. delete_workspace_group self' (id_in_workspace mg) (temporary_name mg))
           (filter (ready wgiw agiw) snapshot)"
    unfolding ready_def by (rule delete_tasks_filter)
  have b: "delete_original_workspace_groups self snapshot d
            = (Inr (),
               d\<lparr>workspace_directory :=
                    filter (\<lambda>g. group_id g \<notin> id_in_workspace ` set (filter (ready wgiw agiw) snapshot))
                      (workspace_directory d),
                  call_log := call_log d
                    @ map (\<lambda>mg. Delete (id_in_workspace mg)) (filter (ready wgiw agiw) snapshot)\<rparr>)"
    if c: "ws self = directory_client"
      and w: "workspace_groups_in_workspace self d = (Inr wgiw, d1)"
      and g: "account_groups_in_workspace self d1 = (Inr agiw, d2)"
  proof -
    from w workspace_groups_in_workspace_directory [OF c, of d] have d1: "d1 = d" by auto
    from g account_groups_in_workspace_directory [OF c, of d1] have d2: "d2 = d1" by auto
    have t: "delete_tasks self wgiw agiw snapshot
       = map (\<lambda>mg. delete_workspace_group self (id_in_workspace mg) (temporary_name mg))
           (filter (ready wgiw agiw) snapshot)"
      unfolding ready_def by (rule delete_tasks_filter)
    show ?thesis
      using w g d1 d2
      by (simp add: delete_original_workspace_groups_def call_bind_def Let_def t
            gather_delete_directory [OF c])
  qed
  from a b show ?thesis by blast
qed

text \<open>
  The theorem on the example workspace: \<^verbatim>\<open>data-eng\<close> is reflected, so group 1 is deleted;
  \<^verbatim>\<open>qa\<close> is not, so group 2 stays.
\<close>

theorem delete_only_after_reflect_witness:
  "delete_original_workspace_groups example_manager
       [example_correspondence ''1'' ''data-eng'' ''data-eng'' ''ucx-renamed-data-eng'',
        example_correspondence ''2'' ''qa'' ''qa'' ''ucx-renamed-qa''] example_directory
     = (Inr (),
        \<lparr>workspace_directory =
           [example_account_group ''7'' (Some ''data-eng''),
            example_workspace_group ''2'' (Some ''ucx-renamed-qa'')],
         account_directory = [example_group ''7'' (Some ''data-eng''), example_group ''8'' (Some ''qa'')],
         call_log = [Delete ''1'']\<rparr>)"
  using delete_only_after_reflect [where self = example_manager and self' = example_manager
          and d = example_directory and ?d1.0 = example_directory and ?d2.0 = example_directory
          and wgiw = "[(''ucx-renamed-data-eng'', example_workspace_group ''1'' ''ucx-renamed-data-eng''),
                       (''ucx-renamed-qa'', example_workspace_group ''2'' ''ucx-renamed-qa'')]"
          and agiw = "[(''data-eng'', example_account_group ''7'' ''data-eng'')]"
          and snapshot = "[example_correspondence ''1'' ''data-eng'' ''data-eng'' ''ucx-renamed-data-eng'',
            example_correspondence ''2'' ''qa'' ''qa'' ''ucx-renamed-qa'']"] example_directory_workspace_groups
        example_directory_account_groups
  apply (simp add: example_manager_def)
  apply (simp add: example_directory_def example_correspondence_def example_workspace_group_def example_account_group_def example_group_def)
  done

subsection \<open>The aggregate error of a phase\<close>

lemma gather_outcomes:
  "fst (gather name tasks s)
     = (map projr (filter (\<lambda>r. \<not> isl r) (job_outcomes tasks s)),
        failures_of (job_outcomes tasks s))"
proof (induction tasks arbitrary: s)
  case Nil
  then show ?case by simp
next
  case (Cons job tasks)
  obtain r s' where j: "job s = (r, s')" by (cases "job s")
  obtain oks errs s'' where g: "gather name tasks s' = ((oks, errs), s'')"
    by (metis surj_pair)
  from Cons [of s'] g have ih: "oks = map projr (filter (\<lambda>r. \<not> isl r) (job_outcomes tasks s'))"
      "errs = failures_of (job_outcomes tasks s')" by simp_all
  show ?case using j g ih by (cases r) simp_all
qed




lemma raise_if_errors:
  "(case gather name tasks s of ((_, errors), s') \<Rightarrow>
       if errors \<noteq> [] then (Inl (ManyError errors), s') else (Inr (), s'))
   = ((if failures_of (job_outcomes tasks s) = [] then Inr ()
       else Inl (ManyError (failures_of (job_outcomes tasks s)))), snd (gather name tasks s))"
  using gather_outcomes [of name tasks s]
  by (cases "gather name tasks s") auto

lemma rename_groups_result:
  assumes "account_groups_in_workspace self s = (Inr agiw, s1)"
    and "workspace_groups_in_workspace self s1 = (Inr wgiw, s2)"
  shows "fst (rename_groups self snapshot s)
     = (if failures_of (job_outcomes (rename_tasks self agiw wgiw snapshot) s2) = [] then Inr ()
        else Inl (ManyError (failures_of (job_outcomes (rename_tasks self agiw wgiw snapshot) s2))))"
  using assms
  by (simp add: rename_groups_def call_bind_def Let_def raise_if_errors get_migration_state_def)



lemma reflect_account_group_to_workspace_directory:
  assumes "ws self = directory_client"
  shows "reflect_account_group_to_workspace self aid d
     = (case put_permissionassignments directory_client aid d of
          (Inl e, d') \<Rightarrow> if e = BadRequest then (Inr True, d') else (Inl e, d')
        | (Inr _, d') \<Rightarrow> (Inr True, d'))"
  unfolding reflect_account_group_to_workspace_def rate_limited_def assms
  by (subst retried_not_retryable)
     (auto simp: directory_client_def Let_def split: option.splits if_splits)

lemma before_account_groups_in_workspace:
  "account_groups_in_workspace example_manager example_directory_before
     = (Inr [], example_directory_before)"
  using account_groups_in_workspace_directory [of example_manager example_directory_before]
  by (simp add: example_manager_def example_directory_before_def
        project_def is_group_out_of_scope_def SYSTEM_GROUPS_def
        example_workspace_group_def example_group_def by_display_name_def named_def)

lemma before_workspace_groups_in_workspace:
  "workspace_groups_in_workspace example_manager example_directory_before
     = (Inr [(''data-eng'', example_workspace_group ''1'' ''data-eng'')], example_directory_before)"
  using workspace_groups_in_workspace_distinct [of example_manager example_directory_before]
  by (simp add: example_manager_def example_directory_before_def
        is_group_out_of_scope_def SYSTEM_GROUPS_def
        example_workspace_group_def example_group_def by_display_name_def named_def)








subsection \<open>Not-found answers and transient errors\<close>

text \<open>
  C6, as the code has it: a not-found answer to the remote delete call is turned into a
  successful no-op by \<open>delete_workspace_group\<close>: the job returns after that one call,
  so the answer is not retried, not recorded as a failure and not surfaced. A not-found
  answer to the rename patch or to the reflect permission assignment is not retried
  either, but the job raises it.
\<close>

theorem not_found_is_benign_for_delete_only:
  "(groups_delete (ws self) gid s = (Inl NotFound, s')
      \<longrightarrow> delete_workspace_group self gid display_name' s = (Inr (), s'))
   \<and> (groups_patch (ws self) gid new_group_name s = (Inl NotFound, s')
      \<longrightarrow> rename_group self gid new_group_name s = (Inl NotFound, s'))
   \<and> (put_permissionassignments (ws self) account_group_id s = (Inl NotFound, s')
      \<longrightarrow> reflect_account_group_to_workspace self account_group_id s = (Inl NotFound, s'))"
proof -
  have a: "delete_workspace_group self gid display_name' s = (Inr (), s')"
    if "groups_delete (ws self) gid s = (Inl NotFound, s')"
    using that by (cases "retry_timeout self") (simp_all add: delete_workspace_group_def rate_limited_def)
  have b: "rename_group self gid new_group_name s = (Inl NotFound, s')"
    if "groups_patch (ws self) gid new_group_name s = (Inl NotFound, s')"
    using that by (simp add: rename_group_def call_bind_def)
  have c: "reflect_account_group_to_workspace self account_group_id s = (Inl NotFound, s')"
    if "put_permissionassignments (ws self) account_group_id s = (Inl NotFound, s')"
    using that by (cases "retry_timeout self")
      (simp_all add: reflect_account_group_to_workspace_def rate_limited_def)
  from a b c show ?thesis by blast
qed

theorem not_found_is_benign_for_delete_only_witness:
  "delete_workspace_group example_manager ''9'' ''ucx-renamed-gone'' example_directory_before
     = (Inr (), example_directory_before\<lparr>call_log := [Delete ''9'']\<rparr>)
   \<and> rename_group example_manager ''9'' ''ucx-renamed-gone'' example_directory_before
     = (Inl NotFound, example_directory_before\<lparr>call_log := [Patch ''9'' ''ucx-renamed-gone'']\<rparr>)
   \<and> reflect_account_group_to_workspace example_manager ''404'' example_directory_before
     = (Inl NotFound, example_directory_before\<lparr>call_log := [PutAssignment ''404'']\<rparr>)"
  using not_found_is_benign_for_delete_only [where self = example_manager and gid = "''9''"
          and s = example_directory_before and new_group_name = "''ucx-renamed-gone''"
          and display_name' = "''ucx-renamed-gone''"
          and s' = "example_directory_before\<lparr>call_log := [Delete ''9'']\<rparr>"]
        not_found_is_benign_for_delete_only [where self = example_manager and gid = "''9''"
          and s = example_directory_before and new_group_name = "''ucx-renamed-gone''"
          and s' = "example_directory_before\<lparr>call_log := [Patch ''9'' ''ucx-renamed-gone'']\<rparr>"]
        not_found_is_benign_for_delete_only [where self = example_manager
          and s = example_directory_before and account_group_id = "''404''"
          and s' = "example_directory_before\<lparr>call_log := [PutAssignment ''404'']\<rparr>"]
  by (simp add: example_manager_def directory_client_def example_directory_before_def
        example_workspace_group_def example_group_def Let_def)

text \<open>
  C6 as stated fails for the rename patch and for the reflect call: the directory
  service answers not-found for a group id that does not exist, \<open>rename_group\<close> raises
  it and the rename phase records it as the failure of that job; so does
  \<open>reflect_account_group_to_workspace\<close> for an account group id that does not exist.
\<close>

theorem not_found_on_rename_and_reflect_counterexample:
  "groups_patch directory_client ''9'' ''ucx-renamed-gone'' example_directory_before
     = (Inl NotFound, example_directory_before\<lparr>call_log := [Patch ''9'' ''ucx-renamed-gone'']\<rparr>)
   \<and> rename_group example_manager ''9'' ''ucx-renamed-gone'' example_directory_before
     = (Inl NotFound, example_directory_before\<lparr>call_log := [Patch ''9'' ''ucx-renamed-gone'']\<rparr>)
   \<and> fst (rename_groups example_manager
            [example_correspondence ''9'' ''gone'' ''gone'' ''ucx-renamed-gone'']
            example_directory_before)
     = Inl (ManyError [NotFound])
   \<and> put_permissionassignments directory_client ''404'' example_directory_before
     = (Inl NotFound, example_directory_before\<lparr>call_log := [PutAssignment ''404'']\<rparr>)
   \<and> reflect_account_group_to_workspace example_manager ''404'' example_directory_before
     = (Inl NotFound, example_directory_before\<lparr>call_log := [PutAssignment ''404'']\<rparr>)"
proof -
  have p: "groups_patch directory_client ''9'' ''ucx-renamed-gone'' example_directory_before
     = (Inl NotFound, example_directory_before\<lparr>call_log := [Patch ''9'' ''ucx-renamed-gone'']\<rparr>)"
    by (simp add: directory_client_def example_directory_before_def
          example_workspace_group_def example_group_def Let_def)
  have r: "rename_group example_manager ''9'' ''ucx-renamed-gone'' example_directory_before
     = (Inl NotFound, example_directory_before\<lparr>call_log := [Patch ''9'' ''ucx-renamed-gone'']\<rparr>)"
    using p by (simp add: rename_group_def call_bind_def example_manager_def)
  have o: "job_outcomes (rename_tasks example_manager []
       [(''data-eng'', example_workspace_group ''1'' ''data-eng'')]
       [example_correspondence ''9'' ''gone'' ''gone'' ''ucx-renamed-gone''])
     example_directory_before = [Inl NotFound]"
    using r by (simp add: example_correspondence_def)
  have ph: "fst (rename_groups example_manager
            [example_correspondence ''9'' ''gone'' ''gone'' ''ucx-renamed-gone'']
            example_directory_before)
     = Inl (ManyError [NotFound])"
    using rename_groups_result [OF before_account_groups_in_workspace
        before_workspace_groups_in_workspace,
        of "[example_correspondence ''9'' ''gone'' ''gone'' ''ucx-renamed-gone'']"]
    unfolding o by simp
  have q: "put_permissionassignments directory_client ''404'' example_directory_before
     = (Inl NotFound, example_directory_before\<lparr>call_log := [PutAssignment ''404'']\<rparr>)"
    by (simp add: directory_client_def example_directory_before_def
          example_workspace_group_def example_group_def Let_def)
  have f: "reflect_account_group_to_workspace example_manager ''404'' example_directory_before
     = (Inl NotFound, example_directory_before\<lparr>call_log := [PutAssignment ''404'']\<rparr>)"
    using q by (simp add: reflect_account_group_to_workspace_directory example_manager_def)
  from p r ph q f show ?thesis by blast
qed

text \<open>
  C5 at a transient error: over the unreliable connection, whose next mutating call
  fails with an internal error, \<open>rename_group\<close> raises that error after its single patch
  call, while \<open>delete_workspace_group\<close> and \<open>reflect_account_group_to_workspace\<close> call
  again and succeed. \<open>rename_group\<close> carries neither of the two wrappers.
\<close>

theorem rename_patch_is_neither_retried_nor_rate_limited:
  "rename_group example_faulty_manager ''1'' ''ucx-renamed-data-eng''
       ([Some InternalError], example_directory_before)
     = (Inl InternalError, ([], example_directory_before))
   \<and> delete_workspace_group example_faulty_manager ''1'' ''data-eng''
       ([Some InternalError], example_directory_before)
     = (Inr (), ([], example_directory_before
                      \<lparr>workspace_directory := [], call_log := [Delete ''1'']\<rparr>))
   \<and> reflect_account_group_to_workspace example_faulty_manager ''7''
       ([Some InternalError], example_directory_before)
     = (Inr True,
        ([], example_directory_before
               \<lparr>workspace_directory :=
                  [example_workspace_group ''1'' (Some ''data-eng''),
                   example_account_group ''7'' (Some ''data-eng'')],
                call_log := [PutAssignment ''7'']\<rparr>))"
  by (simp add: rename_group_def delete_workspace_group_def
        reflect_account_group_to_workspace_def rate_limited_def call_bind_def call_return_def
        example_faulty_manager_def faulty_client_def faulty_def directory_client_def
        example_directory_before_def example_workspace_group_def example_account_group_def
        example_group_def Let_def eval_nat_numeral)

subsection \<open>The rename phase\<close>






























end
